theory Spec2Isabelle
  imports Main
begin

section \<open>The session/profile synchronisation engine of \<open>AuthProvider\<close>\<close>

text \<open>
  The component \<open>AuthProvider\<close> holds three pieces of React state (\<open>user\<close>,
  \<open>isLoading\<close>, \<open>pendingProfile\<close>) and a handful of asynchronous functions that
  talk to the identity service (\<open>supabase.auth\<close>) and to the profile table
  (\<open>supabase.from('profiles')\<close>).

  Every asynchronous function is embedded as the list of its synchronous segments: one
  function for the code that runs from the call up to the first \<open>await\<close>, and one
  function per \<open>await\<close> for the code that runs when the awaited value arrives. Each
  segment takes the state as it is at that moment and returns the state it leaves behind,
  the point where the function is suspended next, and the calls it issued to the outside
  (in order). The answers of the collaborators are inputs of the segments, so every
  behaviour of the identity service and of the profile table is covered. Segments of
  different functions may be interleaved freely, which is what the JavaScript event loop
  does.
\<close>

subsection \<open>Data\<close>

text \<open>
  An error is represented by its message. The fields of the records carry a prefix
  (\<open>r_\<close>, \<open>u_\<close>, \<open>p_\<close>, \<open>pp_\<close>), since the source uses \<open>id\<close>, \<open>name\<close> and
  \<open>clan\<close> in several of its object types.
\<close>

type_synonym err = string

text \<open>A row of the table \<open>profiles\<close>, with the columns the code reads and writes.\<close>

record ProfileRow =
  r_id :: string
  r_name :: string
  r_clan :: "string option"
  r_total_days_completed :: int

text \<open>
  The type \<open>User\<close> (from \<open>@/types\<close>), with the fields the code builds it from. The
  clan is copied from the row by an unchecked cast, so it is nullable like the column.
\<close>

record User =
  u_id :: string
  u_name :: string
  u_email :: string
  u_clan :: "string option"
  u_totalDaysCompleted :: int

text \<open>\<open>Partial<User>\<close>: every field may be missing.\<close>

record PartialUser =
  p_id :: "string option"
  p_name :: "string option"
  p_email :: "string option"
  p_clan :: "string option"
  p_totalDaysCompleted :: "int option"

text \<open>The value staged by \<open>signUp\<close>: \<open>{ name: string }\<close>.\<close>

record PendingProfile =
  pp_name :: string

text \<open>The three \<open>useState\<close> cells of the component.\<close>

record AuthState =
  user :: "User option"
  isLoading :: bool
  pendingProfile :: "PendingProfile option"

definition initial_state :: AuthState where
  "initial_state = \<lparr>user = None, isLoading = True, pendingProfile = None\<rparr>"

text \<open>
  The calls a segment issues to its collaborators, the timer, the console and the router:
  \<open>supabase.auth.getSession()\<close>, \<open>signInWithPassword({email, password})\<close>,
  \<open>signUp({email, password})\<close>, \<open>signOut()\<close>; on the table \<open>profiles\<close>,
  \<open>insert(row)\<close>, the lookup by id, and \<open>update({clan}).eq('id', id)\<close> (the clan first,
  then the id); \<open>delay(ms)\<close>; \<open>console.error(message, error)\<close>;
  \<open>router.replace(route)\<close>.
\<close>

datatype effect =
    AuthGetSession
  | AuthSignInWithPassword string string
  | AuthSignUp string string
  | AuthSignOut
  | ProfilesInsert ProfileRow
  | ProfilesSelect string
  | ProfilesUpdateClan string string
  | Delay nat
  | ConsoleError string err
  | RouterReplace string

text \<open>
  The answer to \<open>select('*').eq('id', userId).limit(1).maybeSingle()\<close>: an error
  (returned in \<open>error\<close> or thrown), or the row if there is one.
\<close>

type_synonym select_response = "err + ProfileRow option"

text \<open>The object literal both fetch functions pass to \<open>setUser\<close>.\<close>

definition user_of_row :: "ProfileRow \<Rightarrow> User" where
  "user_of_row d =
     \<lparr>u_id = r_id d, u_name = r_name d, u_email = [], u_clan = r_clan d,
      u_totalDaysCompleted = r_total_days_completed d\<rparr>"

subsection \<open>\<open>fetchUserProfileWithRetry\<close>\<close>

text \<open>
  The loop is suspended either on the lookup of iteration \<open>i\<close> or on the
  \<open>delay(500)\<close> that follows an unsuccessful lookup of iteration \<open>i\<close>; when it is
  over it has returned \<open>true\<close> or \<open>false\<close>.
\<close>

datatype retry_task =
    RetrySelect string nat nat
  | RetryDelay string nat nat
  | RetryDone bool

text \<open>The head of the \<open>for\<close> loop: test \<open>i < retries\<close>, then issue the lookup or leave.\<close>

definition retry_loop ::
  "string \<Rightarrow> nat \<Rightarrow> nat \<Rightarrow> AuthState \<Rightarrow> AuthState \<times> retry_task \<times> effect list" where
  "retry_loop userId retries i st =
     (if i < retries
      then (st, RetrySelect userId retries i, [ProfilesSelect userId])
      else (st\<lparr>isLoading := False\<rparr>, RetryDone False, []))"

definition fetchUserProfileWithRetry ::
  "string \<Rightarrow> nat \<Rightarrow> AuthState \<Rightarrow> AuthState \<times> retry_task \<times> effect list" where
  "fetchUserProfileWithRetry userId retries st = retry_loop userId retries 0 st"

text \<open>The lookup of iteration \<open>i\<close> has answered.\<close>

definition retry_on_select ::
  "string \<Rightarrow> nat \<Rightarrow> nat \<Rightarrow> select_response \<Rightarrow> AuthState
     \<Rightarrow> AuthState \<times> retry_task \<times> effect list" where
  "retry_on_select userId retries i resp st =
     (case resp of
        Inl e \<Rightarrow>
          (st, RetryDelay userId retries i,
           [ConsoleError ''Error fetching user profile (attempt ${i + 1}):'' e, Delay 500])
      | Inr (Some d) \<Rightarrow>
          (st\<lparr>user := Some (user_of_row d), isLoading := False\<rparr>, RetryDone True, [])
      | Inr None \<Rightarrow>
          (st, RetryDelay userId retries i, [Delay 500]))"

text \<open>The delay of iteration \<open>i\<close> is over: \<open>i++\<close> and back to the head of the loop.\<close>

definition retry_on_delay ::
  "string \<Rightarrow> nat \<Rightarrow> nat \<Rightarrow> AuthState \<Rightarrow> AuthState \<times> retry_task \<times> effect list" where
  "retry_on_delay userId retries i st = retry_loop userId retries (i + 1) st"

text \<open>
  Running the loop to its end with nothing interleaved. \<open>store i\<close> is the answer of the
  profile table to the lookup of iteration \<open>i\<close>. The result is the returned boolean, the
  final state and the calls issued.
\<close>

fun retry_measure :: "retry_task \<Rightarrow> nat" where
  "retry_measure (RetrySelect userId retries i) = 2 * (retries - i) + 2"
| "retry_measure (RetryDelay userId retries i) = 2 * (retries - i) + 1"
| "retry_measure (RetryDone b) = 0"

function run_retry ::
  "(nat \<Rightarrow> select_response) \<Rightarrow> retry_task \<Rightarrow> AuthState \<Rightarrow> effect list
     \<Rightarrow> bool \<times> AuthState \<times> effect list" where
  "run_retry store (RetryDone b) st tr = (b, st, tr)"
| "run_retry store (RetrySelect userId retries i) st tr =
     (case retry_on_select userId retries i (store i) st of
        (st', t', es) \<Rightarrow> run_retry store t' st' (tr @ es))"
| "run_retry store (RetryDelay userId retries i) st tr =
     (case retry_on_delay userId retries i st of
        (st', t', es) \<Rightarrow> run_retry store t' st' (tr @ es))"
  by pat_completeness auto
termination
  apply (relation "measure (\<lambda>(store, t, st, tr). retry_measure t)")
    apply simp
   apply (auto simp: retry_on_select_def retry_on_delay_def retry_loop_def
               split: sum.splits option.splits if_splits)
  done

text \<open>The whole call \<open>fetchUserProfileWithRetry(userId, retries)\<close>, run to its end.\<close>

definition run_fetchUserProfileWithRetry ::
  "(nat \<Rightarrow> select_response) \<Rightarrow> string \<Rightarrow> nat \<Rightarrow> AuthState
     \<Rightarrow> bool \<times> AuthState \<times> effect list" where
  "run_fetchUserProfileWithRetry store userId retries st =
     (case fetchUserProfileWithRetry userId retries st of
        (st', t, es) \<Rightarrow> run_retry store t st' es)"

text \<open>Reading a trace: the number of lookups issued, and the trace without the log.\<close>

fun is_select :: "effect \<Rightarrow> bool" where
  "is_select (ProfilesSelect userId) = True"
| "is_select e = False"

definition lookups :: "effect list \<Rightarrow> nat" where
  "lookups tr = length (filter is_select tr)"

fun is_console :: "effect \<Rightarrow> bool" where
  "is_console (ConsoleError m e) = True"
| "is_console e = False"

definition without_console :: "effect list \<Rightarrow> effect list" where
  "without_console tr = filter (\<lambda>e. \<not> is_console e) tr"

text \<open>An answer that carries no row: an error, or no row found.\<close>

fun no_record :: "select_response \<Rightarrow> bool" where
  "no_record (Inr (Some d)) = False"
| "no_record r = True"

text \<open>The answer "no row found" in the place of every error.\<close>

fun as_not_found :: "select_response \<Rightarrow> select_response" where
  "as_not_found (Inl e) = Inr None"
| "as_not_found r = r"


subsection \<open>\<open>fetchUserProfile\<close>\<close>

text \<open>A single lookup; the \<open>finally\<close> block clears \<open>isLoading\<close> on every path.\<close>

datatype fetch_task = FetchSelect string | FetchDone

definition fetchUserProfile :: "string \<Rightarrow> AuthState \<Rightarrow> AuthState \<times> fetch_task \<times> effect list" where
  "fetchUserProfile userId st = (st, FetchSelect userId, [ProfilesSelect userId])"

definition fetchUserProfile_on_select ::
  "select_response \<Rightarrow> AuthState \<Rightarrow> AuthState \<times> fetch_task \<times> effect list" where
  "fetchUserProfile_on_select resp st =
     (case resp of
        Inl e \<Rightarrow>
          (st\<lparr>isLoading := False\<rparr>, FetchDone,
           [ConsoleError ''Error fetching user profile:'' e])
      | Inr (Some d) \<Rightarrow>
          (st\<lparr>user := Some (user_of_row d), isLoading := False\<rparr>, FetchDone, [])
      | Inr None \<Rightarrow>
          (st\<lparr>isLoading := False\<rparr>, FetchDone, []))"

subsection \<open>The effect run on mount: the session query\<close>

text \<open>
  \<open>supabase.auth.getSession().then(...)\<close>. The session is represented by
  \<open>session.user.id\<close>, the only part of it the code reads; \<open>None\<close> is no session.
  The effect has \<open>pendingProfile\<close> as its dependency, so this query is issued on
  mount and again each time that cell is given a new value.
\<close>

definition boot :: "AuthState \<Rightarrow> AuthState \<times> effect list" where
  "boot st = (st, [AuthGetSession])"

definition boot_on_session ::
  "string option \<Rightarrow> AuthState \<Rightarrow> AuthState \<times> fetch_task \<times> effect list" where
  "boot_on_session session st =
     (case session of
        Some userId \<Rightarrow> fetchUserProfile userId st
      | None \<Rightarrow> (st\<lparr>isLoading := False\<rparr>, FetchDone, []))"

text \<open>
  The boot sequence run to its end from the initial state; \<open>store 0\<close> answers the one
  lookup it can issue.
\<close>

definition run_boot ::
  "string option \<Rightarrow> (nat \<Rightarrow> select_response) \<Rightarrow> AuthState \<times> effect list" where
  "run_boot session store =
     (case boot initial_state of
        (st0, es0) \<Rightarrow>
          (case boot_on_session session st0 of
             (st1, FetchDone, es1) \<Rightarrow> (st1, es0 @ es1)
           | (st1, FetchSelect userId, es1) \<Rightarrow>
               (case fetchUserProfile_on_select (store 0) st1 of
                  (st2, t2, es2) \<Rightarrow> (st2, es0 @ es1 @ es2))))"

subsection \<open>The listener passed to \<open>onAuthStateChange\<close>\<close>

text \<open>
  The listener reads \<open>pendingProfile\<close> from the closure of the render that subscribed
  it. The effect has \<open>pendingProfile\<close> as its dependency and subscribes again whenever
  the cell changes, so the listener is given the cell of the state it runs in.
  The default parameter \<open>retries = 5\<close> is written out at both calls.
\<close>

datatype listener_task =
    ListenerInsert string
  | ListenerRetry retry_task
  | ListenerDone

definition listener_fetch ::
  "string \<Rightarrow> AuthState \<Rightarrow> AuthState \<times> listener_task \<times> effect list" where
  "listener_fetch userId st =
     (case fetchUserProfileWithRetry userId 5 st of
        (st', t, es) \<Rightarrow> (st', ListenerRetry t, es))"

definition onAuthStateChange ::
  "string \<Rightarrow> string option \<Rightarrow> AuthState \<Rightarrow> AuthState \<times> listener_task \<times> effect list" where
  "onAuthStateChange event session st =
     (case session of
        Some userId \<Rightarrow>
          (case pendingProfile st of
             Some pp \<Rightarrow>
               if event = ''SIGNED_IN''
               then (st, ListenerInsert userId,
                     [ProfilesInsert \<lparr>r_id = userId, r_name = pp_name pp,
                        r_clan = Some ''onotka'', r_total_days_completed = 0\<rparr>])
               else listener_fetch userId st
           | None \<Rightarrow> listener_fetch userId st)
      | None \<Rightarrow> (st\<lparr>user := None, isLoading := False\<rparr>, ListenerDone, []))"

text \<open>The insert has answered: \<open>profileError\<close> is \<open>None\<close> when it succeeded.\<close>

definition listener_on_insert ::
  "string \<Rightarrow> err option \<Rightarrow> AuthState \<Rightarrow> AuthState \<times> listener_task \<times> effect list" where
  "listener_on_insert userId profileError st =
     (case profileError of
        Some e \<Rightarrow>
          (st\<lparr>isLoading := False\<rparr>, ListenerDone, [ConsoleError ''Error creating profile:'' e])
      | None \<Rightarrow> listener_fetch userId (st\<lparr>pendingProfile := None\<rparr>))"

text \<open>
  One notification handled to its end with nothing interleaved: \<open>profileError\<close>
  answers the insert if one is issued, \<open>store\<close> answers the lookups. The session
  query that the effect issues again once the listener has cleared the stage is not part
  of this run.
\<close>

definition finish_listener ::
  "(nat \<Rightarrow> select_response) \<Rightarrow> AuthState \<times> listener_task \<times> effect list
     \<Rightarrow> AuthState \<times> effect list" where
  "finish_listener store c =
     (case c of
        (st, ListenerRetry t, es) \<Rightarrow> (case run_retry store t st es of (b, st', tr) \<Rightarrow> (st', tr))
      | (st, t, es) \<Rightarrow> (st, es))"

definition run_listener ::
  "err option \<Rightarrow> (nat \<Rightarrow> select_response) \<Rightarrow> string \<Rightarrow> string option \<Rightarrow> AuthState
     \<Rightarrow> AuthState \<times> effect list" where
  "run_listener profileError store event session st =
     (case onAuthStateChange event session st of
        (st1, ListenerInsert userId, es1) \<Rightarrow>
          (case listener_on_insert userId profileError st1 of
             (st2, t2, es2) \<Rightarrow> finish_listener store (st2, t2, es1 @ es2))
      | (st1, t1, es1) \<Rightarrow> finish_listener store (st1, t1, es1))"

subsection \<open>\<open>signIn\<close>\<close>

text \<open>
  The promise an \<open>async\<close> function returns is rejected (\<open>Inl\<close>) or fulfilled
  (\<open>Inr\<close>).
\<close>

definition signIn :: "string \<Rightarrow> string \<Rightarrow> AuthState \<Rightarrow> AuthState \<times> effect list" where
  "signIn email password st =
     (st\<lparr>isLoading := True\<rparr>, [AuthSignInWithPassword email password])"

definition signIn_on_response ::
  "err option \<Rightarrow> AuthState \<Rightarrow> AuthState \<times> (err + unit) \<times> effect list" where
  "signIn_on_response error st =
     (case error of
        Some e \<Rightarrow> (st\<lparr>isLoading := False\<rparr>, Inl e, [ConsoleError ''Sign in error:'' e])
      | None \<Rightarrow> (st\<lparr>isLoading := False\<rparr>, Inr (), [RouterReplace ''/(app)/(tabs)/totem'']))"

subsection \<open>\<open>signUp\<close>\<close>

text \<open>
  The answer of \<open>supabase.auth.signUp\<close>: \<open>signUpError\<close>, or \<open>authUser\<close> (which
  may be null).
\<close>

definition signUp :: "string \<Rightarrow> string \<Rightarrow> string \<Rightarrow> AuthState \<Rightarrow> AuthState \<times> effect list" where
  "signUp nm email password st =
     (st\<lparr>isLoading := True, pendingProfile := Some \<lparr>pp_name = nm\<rparr>\<rparr>,
      [AuthSignUp email password])"

definition signUp_on_response ::
  "err + string option \<Rightarrow> AuthState \<Rightarrow> AuthState \<times> (err + unit) \<times> effect list" where
  "signUp_on_response resp st =
     (case resp of
        Inl signUpError \<Rightarrow>
          (if signUpError = ''User already registered''
           then (st, Inl ''User already registered'',
                 [ConsoleError ''Sign up error:'' ''User already registered''])
           else (st, Inl signUpError, [ConsoleError ''Sign up error:'' signUpError]))
      | Inr None \<Rightarrow>
          (st, Inl ''No user returned after signup'',
           [ConsoleError ''Sign up error:'' ''No user returned after signup''])
      | Inr (Some authUser) \<Rightarrow> (st, Inr (), []))"

subsection \<open>\<open>signOut\<close>\<close>

definition signOut :: "AuthState \<Rightarrow> AuthState \<times> effect list" where
  "signOut st = (st, [AuthSignOut])"

definition signOut_on_response :: "err option \<Rightarrow> AuthState \<Rightarrow> AuthState \<times> effect list" where
  "signOut_on_response error st =
     (case error of
        Some e \<Rightarrow> (st, [ConsoleError ''Sign out error:'' e])
      | None \<Rightarrow> (st\<lparr>user := None\<rparr>, [RouterReplace ''/(auth)/login'']))"


subsection \<open>\<open>setCurrentOnboardingData\<close>\<close>

text \<open>\<open>{ ...prev, ...data }\<close>: a field of \<open>data\<close> that is there replaces the one of \<open>prev\<close>.\<close>

definition spread :: "User \<Rightarrow> PartialUser \<Rightarrow> User" where
  "spread prev d =
     \<lparr>u_id = (case p_id d of Some v \<Rightarrow> v | None \<Rightarrow> u_id prev),
      u_name = (case p_name d of Some v \<Rightarrow> v | None \<Rightarrow> u_name prev),
      u_email = (case p_email d of Some v \<Rightarrow> v | None \<Rightarrow> u_email prev),
      u_clan = (case p_clan d of Some v \<Rightarrow> Some v | None \<Rightarrow> u_clan prev),
      u_totalDaysCompleted =
        (case p_totalDaysCompleted d of Some v \<Rightarrow> v | None \<Rightarrow> u_totalDaysCompleted prev)\<rparr>"

text \<open>
  The guard \<open>!user?.id || !data.clan\<close> returns when there is no user, when its id is
  the empty string, when \<open>data\<close> has no clan or when that clan is the empty string. The
  boolean says whether the function is suspended on the update.
\<close>

definition setCurrentOnboardingData ::
  "PartialUser \<Rightarrow> AuthState \<Rightarrow> AuthState \<times> bool \<times> effect list" where
  "setCurrentOnboardingData d st =
     (case user st of
        None \<Rightarrow> (st, False, [])
      | Some u \<Rightarrow>
          (case p_clan d of
             None \<Rightarrow> (st, False, [])
           | Some c \<Rightarrow>
               if u_id u = [] \<or> c = [] then (st, False, [])
               else (st, True, [ProfilesUpdateClan c (u_id u)])))"

definition setCurrentOnboardingData_on_response ::
  "PartialUser \<Rightarrow> err option \<Rightarrow> AuthState \<Rightarrow> AuthState \<times> effect list" where
  "setCurrentOnboardingData_on_response d error st =
     (case error of
        Some e \<Rightarrow> (st, [ConsoleError ''Error updating user data:'' e])
      | None \<Rightarrow>
          (st\<lparr>user := (case user st of Some prev \<Rightarrow> Some (spread prev d) | None \<Rightarrow> None)\<rparr>,
           []))"

subsection \<open>Whole calls and concrete inputs\<close>

text \<open>A call of \<open>signOut\<close> or \<open>signIn\<close> with nothing interleaved.\<close>

definition run_signOut :: "err option \<Rightarrow> AuthState \<Rightarrow> AuthState \<times> effect list" where
  "run_signOut error st =
     (case signOut st of
        (st1, es1) \<Rightarrow>
          (case signOut_on_response error st1 of (st2, es2) \<Rightarrow> (st2, es1 @ es2)))"

definition run_signIn ::
  "err option \<Rightarrow> string \<Rightarrow> string \<Rightarrow> AuthState \<Rightarrow> AuthState \<times> (err + unit) \<times> effect list" where
  "run_signIn error email password st =
     (case signIn email password st of
        (st1, es1) \<Rightarrow>
          (case signIn_on_response error st1 of (st2, res, es2) \<Rightarrow> (st2, res, es1 @ es2)))"

text \<open>
  A call of \<open>signUp\<close>. Its call segment stores a fresh object in \<open>pendingProfile\<close>,
  and \<open>pendingProfile\<close> is the dependency of the effect run on mount: once the call
  segment is over the component renders again and the effect runs again, so the session
  query is issued a second time (and the listener is subscribed again). From then on three
  answers are awaited: the one to \<open>supabase.auth.signUp\<close>, the one to the session query,
  and, if there is a session, the one to the lookup of \<open>fetchUserProfile\<close>. They arrive
  in any order, except that the lookup is issued by the answer to the session query. A run
  takes the answers as a list; an answer that nothing is suspended on changes nothing.
\<close>

datatype effect_task = EffectSession | EffectFetch fetch_task

datatype answer =
    SignUpAnswered "err + string option"
  | SessionAnswered "string option"
  | SelectAnswered select_response

text \<open>
  The state, the outcome of the promise of \<open>signUp\<close> (\<open>None\<close> while it is suspended),
  the point where the effect is suspended, and the calls issued so far.
\<close>

record signUp_run =
  run_state :: AuthState
  run_result :: "(err + unit) option"
  run_effect :: effect_task
  run_trace :: "effect list"

definition signUp_start :: "string \<Rightarrow> string \<Rightarrow> string \<Rightarrow> AuthState \<Rightarrow> signUp_run" where
  "signUp_start nm email password st =
     (case signUp nm email password st of
        (st1, es1) \<Rightarrow>
          (case boot st1 of
             (st2, es2) \<Rightarrow>
               \<lparr>run_state = st2, run_result = None, run_effect = EffectSession,
                run_trace = es1 @ es2\<rparr>))"

definition on_answer :: "answer \<Rightarrow> signUp_run \<Rightarrow> signUp_run" where
  "on_answer a c =
     (case a of
        SignUpAnswered resp \<Rightarrow>
          (case run_result c of
             None \<Rightarrow>
               (case signUp_on_response resp (run_state c) of
                  (st', res, es) \<Rightarrow>
                    c\<lparr>run_state := st', run_result := Some res, run_trace := run_trace c @ es\<rparr>)
           | Some res \<Rightarrow> c)
      | SessionAnswered session \<Rightarrow>
          (case run_effect c of
             EffectSession \<Rightarrow>
               (case boot_on_session session (run_state c) of
                  (st', t, es) \<Rightarrow>
                    c\<lparr>run_state := st', run_effect := EffectFetch t,
                      run_trace := run_trace c @ es\<rparr>)
           | EffectFetch t \<Rightarrow> c)
      | SelectAnswered resp \<Rightarrow>
          (case run_effect c of
             EffectFetch (FetchSelect userId) \<Rightarrow>
               (case fetchUserProfile_on_select resp (run_state c) of
                  (st', t, es) \<Rightarrow>
                    c\<lparr>run_state := st', run_effect := EffectFetch t,
                      run_trace := run_trace c @ es\<rparr>)
           | EffectFetch FetchDone \<Rightarrow> c
           | EffectSession \<Rightarrow> c))"

fun on_answers :: "answer list \<Rightarrow> signUp_run \<Rightarrow> signUp_run" where
  "on_answers [] c = c"
| "on_answers (a # as) c = on_answers as (on_answer a c)"

definition run_signUp ::
  "answer list \<Rightarrow> string \<Rightarrow> string \<Rightarrow> string \<Rightarrow> AuthState \<Rightarrow> signUp_run" where
  "run_signUp answers nm email password st =
     on_answers answers (signUp_start nm email password st)"

text \<open>
  What holds all along a run of \<open>signUp\<close>: \<open>isLoading\<close> is true exactly as long as the
  effect that ran again has not finished, and the stage is kept.
\<close>

definition signUp_inv :: "string \<Rightarrow> signUp_run \<Rightarrow> bool" where
  "signUp_inv nm c =
     (isLoading (run_state c) = (run_effect c \<noteq> EffectFetch FetchDone)
      \<and> pendingProfile (run_state c) = Some \<lparr>pp_name = nm\<rparr>)"

text \<open>The table that answers "no row found" where \<open>store\<close> answers with an error.\<close>

definition errors_as_not_found :: "(nat \<Rightarrow> select_response) \<Rightarrow> nat \<Rightarrow> select_response" where
  "errors_as_not_found store j = as_not_found (store j)"

text \<open>Rows, states and tables used as concrete inputs.\<close>

definition alice_row :: ProfileRow where
  "alice_row = \<lparr>r_id = ''u1'', r_name = ''Alice'', r_clan = Some ''onotka'',
                 r_total_days_completed = 0\<rparr>"

definition alice_u2_row :: ProfileRow where
  "alice_u2_row = \<lparr>r_id = ''u2'', r_name = ''Alice'', r_clan = Some ''onotka'',
                    r_total_days_completed = 0\<rparr>"

definition alice_u2_null_clan_row :: ProfileRow where
  "alice_u2_null_clan_row = \<lparr>r_id = ''u2'', r_name = ''Alice'', r_clan = None,
                              r_total_days_completed = 0\<rparr>"

definition settled_alice :: AuthState where
  "settled_alice = \<lparr>user = Some (user_of_row alice_row), isLoading = False,
                     pendingProfile = None\<rparr>"

definition staged_alice :: AuthState where
  "staged_alice = \<lparr>user = None, isLoading = True,
                    pendingProfile = Some \<lparr>pp_name = ''Alice''\<rparr>\<rparr>"

definition clan_c1 :: PartialUser where
  "clan_c1 = \<lparr>p_id = None, p_name = None, p_email = None, p_clan = Some ''c1'',
               p_totalDaysCompleted = None\<rparr>"

definition store_never :: "nat \<Rightarrow> select_response" where
  "store_never i = Inr None"


definition store_fifth :: "nat \<Rightarrow> select_response" where
  "store_fifth i = (if i = 4 then Inr (Some alice_row) else Inr None)"

definition store_second :: "nat \<Rightarrow> select_response" where
  "store_second i = (if i = 0 then Inr None else Inr (Some alice_row))"

definition store_u2_third :: "nat \<Rightarrow> select_response" where
  "store_u2_third i = (if i = 2 then Inr (Some alice_u2_row) else Inr None)"

section \<open>Properties of the retry loop\<close>

text \<open>One segment at a time.\<close>

lemma run_retry_select_found:
  "store i = Inr (Some d) \<Longrightarrow>
   run_retry store (RetrySelect u n i) st tr =
     (True, st\<lparr>user := Some (user_of_row d), isLoading := False\<rparr>, tr)"
  by (simp add: retry_on_select_def)

lemma run_retry_select_none:
  "store i = Inr None \<Longrightarrow>
   run_retry store (RetrySelect u n i) st tr =
     run_retry store (RetryDelay u n i) st (tr @ [Delay 500])"
  by (simp add: retry_on_select_def)

lemma run_retry_select_error:
  "store i = Inl e \<Longrightarrow>
   run_retry store (RetrySelect u n i) st tr =
     run_retry store (RetryDelay u n i) st
       (tr @ [ConsoleError ''Error fetching user profile (attempt ${i + 1}):'' e, Delay 500])"
  by (simp add: retry_on_select_def)

lemma run_retry_delay_next:
  "Suc i < n \<Longrightarrow>
   run_retry store (RetryDelay u n i) st tr =
     run_retry store (RetrySelect u n (Suc i)) st (tr @ [ProfilesSelect u])"
  by (simp add: retry_on_delay_def retry_loop_def)

lemma run_retry_delay_last:
  "\<not> Suc i < n \<Longrightarrow>
   run_retry store (RetryDelay u n i) st tr = (False, st\<lparr>isLoading := False\<rparr>, tr)"
  by (simp add: retry_on_delay_def retry_loop_def)

declare run_retry.simps [simp del]

lemma no_record_cases:
  "no_record r \<Longrightarrow> r = Inr None \<or> (\<exists>e. r = Inl e)"
  by (cases r rule: no_record.cases) auto

lemma lookups_simps [simp]:
  "lookups [] = 0"
  "lookups (tr @ tr') = lookups tr + lookups tr'"
  "lookups (ProfilesSelect u # tr) = Suc (lookups tr)"
  "lookups (Delay ms # tr) = lookups tr"
  "lookups (ConsoleError m e # tr) = lookups tr"
  by (simp_all add: lookups_def)

text \<open>An unsuccessful lookup leads to the delay, with no lookup added to the trace.\<close>

lemma run_retry_select_no_record:
  assumes "no_record (store i)"
  shows "\<exists>es. lookups es = 0 \<and>
           run_retry store (RetrySelect u n i) st tr =
             run_retry store (RetryDelay u n i) st (tr @ es)"
proof -
  from assms consider "store i = Inr None" | e where "store i = Inl e"
    using no_record_cases by blast
  then show ?thesis
  proof cases
    case 1
    have "lookups [Delay 500] = 0" by simp
    with run_retry_select_none [of store i u n st tr] 1 show ?thesis by blast
  next
    case 2
    have "lookups [ConsoleError ''Error fetching user profile (attempt ${i + 1}):'' e, Delay 500] = 0"
      by simp
    with run_retry_select_error [of store i e u n st tr] 2 show ?thesis by blast
  qed
qed

lemma run_retry_not_found:
  "i < n \<Longrightarrow> (\<forall>j. i \<le> j \<and> j < n \<longrightarrow> no_record (store j)) \<Longrightarrow>
   \<exists>tr'. run_retry store (RetrySelect u n i) st tr = (False, st\<lparr>isLoading := False\<rparr>, tr')
     \<and> lookups tr' = lookups tr + (n - Suc i)"
proof (induction "n - i" arbitrary: i tr)
  case 0
  then show ?case by simp
next
  case (Suc m)
  from Suc.prems have nr: "no_record (store i)" by simp
  obtain es where es: "lookups es = 0"
    "run_retry store (RetrySelect u n i) st tr = run_retry store (RetryDelay u n i) st (tr @ es)"
    using run_retry_select_no_record [of store i u n st tr] nr by blast
  show ?case
  proof (cases "Suc i < n")
    case True
    have m: "m = n - Suc i" using Suc.hyps(2) by simp
    have all: "\<forall>j. Suc i \<le> j \<and> j < n \<longrightarrow> no_record (store j)"
      using Suc.prems(2) by simp
    obtain tr' where tr':
      "run_retry store (RetrySelect u n (Suc i)) st (tr @ es @ [ProfilesSelect u])
         = (False, st\<lparr>isLoading := False\<rparr>, tr')"
      "lookups tr' = lookups (tr @ es @ [ProfilesSelect u]) + (n - Suc (Suc i))"
      using Suc.hyps(1) [OF m True all] by blast
    have "run_retry store (RetrySelect u n i) st tr = (False, st\<lparr>isLoading := False\<rparr>, tr')"
      using es(2) run_retry_delay_next [of i n store u st "tr @ es"] True tr'(1) by simp
    moreover have "lookups tr' = lookups tr + (n - Suc i)"
      using tr'(2) es(1) True by simp
    ultimately show ?thesis by blast
  next
    case False
    then have "run_retry store (RetrySelect u n i) st tr = (False, st\<lparr>isLoading := False\<rparr>, tr @ es)"
      using es(2) run_retry_delay_last [of i n store u st "tr @ es"] by simp
    moreover have "lookups (tr @ es) = lookups tr + (n - Suc i)"
      using es(1) False by simp
    ultimately show ?thesis by blast
  qed
qed

lemma run_retry_found:
  "i \<le> k \<Longrightarrow> k < n \<Longrightarrow> store k = Inr (Some d) \<Longrightarrow>
   (\<forall>j. i \<le> j \<and> j < k \<longrightarrow> no_record (store j)) \<Longrightarrow>
   \<exists>tr'. run_retry store (RetrySelect u n i) st tr =
            (True, st\<lparr>user := Some (user_of_row d), isLoading := False\<rparr>, tr')
     \<and> lookups tr' = lookups tr + (k - i)"
proof (induction "k - i" arbitrary: i tr)
  case 0
  then have "i = k" by simp
  then show ?case
    using run_retry_select_found [of store k d u n st tr] "0.prems"(3) by simp
next
  case (Suc m)
  then have lt: "i < k" by simp
  with Suc.prems have nr: "no_record (store i)" by simp
  obtain es where es: "lookups es = 0"
    "run_retry store (RetrySelect u n i) st tr = run_retry store (RetryDelay u n i) st (tr @ es)"
    using run_retry_select_no_record [of store i u n st tr] nr by blast
  have next_lt: "Suc i < n" using lt Suc.prems(2) by simp
  have m: "m = k - Suc i" using Suc.hyps(2) by simp
  have le: "Suc i \<le> k" using lt by simp
  have all: "\<forall>j. Suc i \<le> j \<and> j < k \<longrightarrow> no_record (store j)"
    using Suc.prems(4) by simp
  obtain tr' where tr':
    "run_retry store (RetrySelect u n (Suc i)) st (tr @ es @ [ProfilesSelect u])
       = (True, st\<lparr>user := Some (user_of_row d), isLoading := False\<rparr>, tr')"
    "lookups tr' = lookups (tr @ es @ [ProfilesSelect u]) + (k - Suc i)"
    using Suc.hyps(1) [OF m le Suc.prems(2) Suc.prems(3) all] by blast
  have "run_retry store (RetrySelect u n i) st tr =
          (True, st\<lparr>user := Some (user_of_row d), isLoading := False\<rparr>, tr')"
    using es(2) run_retry_delay_next [of i n store u st "tr @ es"] next_lt tr'(1) by simp
  moreover have "lookups tr' = lookups tr + (k - i)"
    using tr'(2) es(1) lt by simp
  ultimately show ?case by blast
qed


lemma without_console_simps [simp]:
  "without_console [] = []"
  "without_console (tr @ tr') = without_console tr @ without_console tr'"
  "without_console (ProfilesSelect u # tr) = ProfilesSelect u # without_console tr"
  "without_console (Delay ms # tr) = Delay ms # without_console tr"
  "without_console (ConsoleError m e # tr) = without_console tr"
  by (simp_all add: without_console_def)

text \<open>Where a loop suspended on a lookup ends, whatever the table answers.\<close>

lemma run_retry_select_outcome:
  "run_retry store (RetrySelect u n i) st tr = (b, st', tr') \<Longrightarrow>
   (if b then \<exists>k d. i \<le> k \<and> store k = Inr (Some d)
                \<and> st' = st\<lparr>user := Some (user_of_row d), isLoading := False\<rparr>
    else st' = st\<lparr>isLoading := False\<rparr>)"
proof (induction "n - i" arbitrary: i tr rule: less_induct)
  case less
  show ?case
  proof (cases "no_record (store i)")
    case False
    then obtain d where d: "store i = Inr (Some d)"
      by (cases "store i" rule: no_record.cases) auto
    from less.prems run_retry_select_found [of store i d u n st tr] d
    have "b" and "st' = st\<lparr>user := Some (user_of_row d), isLoading := False\<rparr>"
      by simp_all
    with d show ?thesis by auto
  next
    case True
    obtain es where es:
      "run_retry store (RetrySelect u n i) st tr = run_retry store (RetryDelay u n i) st (tr @ es)"
      using run_retry_select_no_record [of store i u n st tr] True by blast
    show ?thesis
    proof (cases "Suc i < n")
      case lt: True
      then have dec: "n - Suc i < n - i" by simp
      have "run_retry store (RetrySelect u n (Suc i)) st (tr @ es @ [ProfilesSelect u]) = (b, st', tr')"
        using less.prems es run_retry_delay_next [of i n store u st "tr @ es"] lt by simp
      from less.hyps [OF dec this] show ?thesis
        by (auto split: if_splits intro: Suc_leD)
    next
      case False
      then show ?thesis
        using less.prems es run_retry_delay_last [of i n store u st "tr @ es"] by simp
    qed
  qed
qed



text \<open>The number of lookups a suspended loop still issues is bounded by its budget.\<close>

lemma run_retry_lookups_le:
  "lookups (snd (snd (run_retry store (RetrySelect u n i) st tr))) \<le> lookups tr + (n - Suc i)"
proof (induction "n - i" arbitrary: i tr rule: less_induct)
  case less
  show ?case
  proof (cases "no_record (store i)")
    case False
    then obtain d where d: "store i = Inr (Some d)"
      by (cases "store i" rule: no_record.cases) auto
    show ?thesis
      using run_retry_select_found [of store i d u n st tr] d by simp
  next
    case True
    obtain es where es: "lookups es = 0"
      "run_retry store (RetrySelect u n i) st tr = run_retry store (RetryDelay u n i) st (tr @ es)"
      using run_retry_select_no_record [of store i u n st tr] True by blast
    show ?thesis
    proof (cases "Suc i < n")
      case lt: True
      then have dec: "n - Suc i < n - i" by simp
      have "lookups (snd (snd (run_retry store (RetrySelect u n (Suc i)) st
               (tr @ es @ [ProfilesSelect u]))))
             \<le> lookups (tr @ es @ [ProfilesSelect u]) + (n - Suc (Suc i))"
        using less.hyps [OF dec] .
      then show ?thesis
        using es run_retry_delay_next [of i n store u st "tr @ es"] lt by simp
    next
      case False
      then show ?thesis
        using es run_retry_delay_last [of i n store u st "tr @ es"] by simp
    qed
  qed
qed

text \<open>
  Answering "no row found" in the place of every error changes neither the returned
  value, nor the final state, nor the calls issued apart from the log.
\<close>

lemma run_retry_error_as_not_found:
  "without_console tr = without_console tr2 \<Longrightarrow>
   fst (run_retry store (RetrySelect u n i) st tr)
     = fst (run_retry (\<lambda>j. as_not_found (store j)) (RetrySelect u n i) st tr2)
   \<and> fst (snd (run_retry store (RetrySelect u n i) st tr))
     = fst (snd (run_retry (\<lambda>j. as_not_found (store j)) (RetrySelect u n i) st tr2))
   \<and> without_console (snd (snd (run_retry store (RetrySelect u n i) st tr)))
     = without_console
         (snd (snd (run_retry (\<lambda>j. as_not_found (store j)) (RetrySelect u n i) st tr2)))"
proof (induction "n - i" arbitrary: i tr tr2 rule: less_induct)
  case less
  let ?store' = "\<lambda>j. as_not_found (store j)"
  show ?case
  proof (cases "store i")
    case (Inr r)
    show ?thesis
    proof (cases r)
      case (Some d)
      with Inr have "store i = Inr (Some d)" "?store' i = Inr (Some d)" by simp_all
      then show ?thesis
        using run_retry_select_found [of store i d u n st tr]
          run_retry_select_found [of ?store' i d u n st tr2] less.prems by simp
    next
      case None
      with Inr have s: "store i = Inr None" "?store' i = Inr None" by simp_all
      have eq: "without_console (tr @ [Delay 500]) = without_console (tr2 @ [Delay 500])"
        using less.prems by simp
      show ?thesis
      proof (cases "Suc i < n")
        case lt: True
        then have dec: "n - Suc i < n - i" by simp
        have eq': "without_console ((tr @ [Delay 500]) @ [ProfilesSelect u])
                 = without_console ((tr2 @ [Delay 500]) @ [ProfilesSelect u])"
          using eq by simp
        show ?thesis
          using less.hyps [OF dec eq']
            run_retry_select_none [of store i u n st tr] s(1)
            run_retry_select_none [of ?store' i u n st tr2] s(2)
            run_retry_delay_next [of i n store u st "tr @ [Delay 500]"]
            run_retry_delay_next [of i n ?store' u st "tr2 @ [Delay 500]"] lt
          by simp
      next
        case False
        then show ?thesis
          using eq
            run_retry_select_none [of store i u n st tr] s(1)
            run_retry_select_none [of ?store' i u n st tr2] s(2)
            run_retry_delay_last [of i n store u st "tr @ [Delay 500]"]
            run_retry_delay_last [of i n ?store' u st "tr2 @ [Delay 500]"]
          by simp
      qed
    qed
  next
    case (Inl e)
    then have s: "store i = Inl e" "?store' i = Inr None" by simp_all
    let ?log = "ConsoleError ''Error fetching user profile (attempt ${i + 1}):'' e"
    have eq: "without_console (tr @ [?log, Delay 500]) = without_console (tr2 @ [Delay 500])"
      using less.prems by simp
    show ?thesis
    proof (cases "Suc i < n")
      case lt: True
      then have dec: "n - Suc i < n - i" by simp
      have eq': "without_console ((tr @ [?log, Delay 500]) @ [ProfilesSelect u])
               = without_console ((tr2 @ [Delay 500]) @ [ProfilesSelect u])"
        using eq by simp
      show ?thesis
        using less.hyps [OF dec eq']
          run_retry_select_error [of store i e u n st tr] s(1)
          run_retry_select_none [of ?store' i u n st tr2] s(2)
          run_retry_delay_next [of i n store u st "tr @ [?log, Delay 500]"]
          run_retry_delay_next [of i n ?store' u st "tr2 @ [Delay 500]"] lt
        by simp
    next
      case False
      then show ?thesis
        using eq
          run_retry_select_error [of store i e u n st tr] s(1)
          run_retry_select_none [of ?store' i u n st tr2] s(2)
          run_retry_delay_last [of i n store u st "tr @ [?log, Delay 500]"]
          run_retry_delay_last [of i n ?store' u st "tr2 @ [Delay 500]"]
        by simp
    qed
  qed
qed

text \<open>The first segment of a call with a positive budget issues the first lookup.\<close>

lemma run_fetch_start:
  "0 < n \<Longrightarrow> run_fetchUserProfileWithRetry store u n st =
     run_retry store (RetrySelect u n 0) st [ProfilesSelect u]"
  by (simp add: run_fetchUserProfileWithRetry_def fetchUserProfileWithRetry_def retry_loop_def)

text \<open>The loop never touches the staged registration.\<close>

lemma run_retry_select_pendingProfile:
  "pendingProfile (fst (snd (run_retry store (RetrySelect u n i) st tr))) = pendingProfile st"
proof -
  obtain b st' tr' where r: "run_retry store (RetrySelect u n i) st tr = (b, st', tr')"
    by (cases "run_retry store (RetrySelect u n i) st tr")
  from run_retry_select_outcome [OF r] have "pendingProfile st' = pendingProfile st"
    by (cases b) auto
  with r show ?thesis by simp
qed

text \<open>The state a notification ends in, when it ends in the retry loop.\<close>

lemma finish_listener_retry_state:
  "fst (finish_listener store (st, ListenerRetry t, es)) = fst (snd (run_retry store t st es))"
  by (simp add: finish_listener_def split: prod.splits)

text \<open>The same for whole calls, with any budget.\<close>

lemma run_fetch_error_as_not_found:
  "fst (run_fetchUserProfileWithRetry store u n st)
     = fst (run_fetchUserProfileWithRetry (errors_as_not_found store) u n st)
   \<and> fst (snd (run_fetchUserProfileWithRetry store u n st))
     = fst (snd (run_fetchUserProfileWithRetry (errors_as_not_found store) u n st))
   \<and> without_console (snd (snd (run_fetchUserProfileWithRetry store u n st)))
     = without_console
         (snd (snd (run_fetchUserProfileWithRetry (errors_as_not_found store) u n st)))"
proof (cases "0 < n")
  case True
  have eta: "errors_as_not_found store = (\<lambda>j. as_not_found (store j))"
    by (rule ext) (simp add: errors_as_not_found_def)
  show ?thesis
    using run_retry_error_as_not_found
      [of "[ProfilesSelect u]" "[ProfilesSelect u]" store u n 0 st]
      run_fetch_start [OF True, of store u st]
      run_fetch_start [OF True, of "errors_as_not_found store" u st] eta
    by simp
next
  case False
  then show ?thesis
    by (simp add: run_fetchUserProfileWithRetry_def fetchUserProfileWithRetry_def
          retry_loop_def run_retry.simps)
qed

section \<open>Properties of a run of \<open>signUp\<close>\<close>

text \<open>No segment of \<open>signUp\<close> after the call changes the state.\<close>

lemma signUp_on_response_state:
  "fst (signUp_on_response resp st) = st"
  by (simp add: signUp_on_response_def split: sum.splits option.splits)

text \<open>The invariant holds at the start and is kept by every answer.\<close>

lemma signUp_inv_start:
  "signUp_inv nm (signUp_start nm email password st)"
  by (simp add: signUp_inv_def signUp_start_def signUp_def boot_def)

lemma signUp_inv_on_answer:
  "signUp_inv nm c \<Longrightarrow> signUp_inv nm (on_answer a c)"
proof (cases a)
  case (SignUpAnswered resp)
  assume "signUp_inv nm c"
  then show ?thesis
    using SignUpAnswered signUp_on_response_state [of resp "run_state c"]
    by (cases "signUp_on_response resp (run_state c)")
       (auto simp: signUp_inv_def on_answer_def split: option.splits)
next
  case (SessionAnswered session)
  assume "signUp_inv nm c"
  then show ?thesis
    using SessionAnswered
    by (auto simp: signUp_inv_def on_answer_def boot_on_session_def fetchUserProfile_def
             split: effect_task.splits option.splits)
next
  case (SelectAnswered resp)
  assume "signUp_inv nm c"
  then show ?thesis
    using SelectAnswered
    by (auto simp: signUp_inv_def on_answer_def fetchUserProfile_on_select_def
             split: effect_task.splits fetch_task.splits sum.splits option.splits)
qed

lemma signUp_inv_on_answers:
  "signUp_inv nm c \<Longrightarrow> signUp_inv nm (on_answers as c)"
  by (induction as arbitrary: c) (simp_all add: signUp_inv_on_answer)

lemma signUp_inv_run:
  "signUp_inv nm (run_signUp answers nm email password st)"
  by (simp add: run_signUp_def signUp_inv_on_answers signUp_inv_start)

section \<open>The claims\<close>

subsection \<open>C1: sign-out while a retry loop is suspended\<close>




subsection \<open>C2: sign-out and the answer of the identity service\<close>

text \<open>
  Claim C2 as stated fails. When the identity service answers the sign-out with an
  error, \<open>if (error) throw error\<close> leaves the \<open>try\<close> block before \<open>setUser(null)\<close>:
  a signed-in user stays signed in locally.
\<close>

theorem signOut_remote_failure_counterexample:
  "\<not> (user (fst (run_signOut (Some ''network'') settled_alice)) = None)"
  by (simp add: run_signOut_def signOut_def signOut_on_response_def settled_alice_def)

text \<open>
  Claim C2, amended. \<open>signOut\<close> clears the user (and navigates to the login route) when
  the identity service accepts the sign-out; when the service answers with an error, the
  error is logged and the state is left exactly as it was.
\<close>

theorem signOut_clears_user_when_remote_succeeds:
  "user (fst (run_signOut None st)) = None
   \<and> snd (run_signOut None st) = [AuthSignOut, RouterReplace ''/(auth)/login'']
   \<and> fst (run_signOut (Some e) st) = st
   \<and> snd (run_signOut (Some e) st) = [AuthSignOut, ConsoleError ''Sign out error:'' e]"
  by (simp add: run_signOut_def signOut_def signOut_on_response_def)

subsection \<open>C3: the row created after sign-up\<close>

text \<open>
  Claim C3 as stated fails. With \<open>{name: "Alice"}\<close> staged, the notification
  \<open>SIGNED_IN\<close> for \<open>u2\<close> does not insert a row with a null clan: the listener writes
  the clan \<open>'onotka'\<close>.
\<close>

theorem created_profile_null_clan_counterexample:
  "\<not> (snd (snd (onAuthStateChange ''SIGNED_IN'' (Some ''u2'') staged_alice))
        = [ProfilesInsert alice_u2_null_clan_row])"
  by (simp add: onAuthStateChange_def staged_alice_def alice_u2_null_clan_row_def)

text \<open>
  Claim C3, amended. When a \<open>SIGNED_IN\<close> notification arrives with a registration
  staged, the listener issues exactly one insert, of the row with the notification's
  identity, the staged name, the clan \<open>'onotka'\<close> and 0 completed days. After the insert
  succeeds, if the first row the retry loop finds within its 5 lookups is that row, the
  user is present with that identity and the staged name.
\<close>

theorem created_profile_row:
  "pendingProfile st = Some pp \<Longrightarrow>
   onAuthStateChange ''SIGNED_IN'' (Some userId) st =
     (st, ListenerInsert userId,
      [ProfilesInsert \<lparr>r_id = userId, r_name = pp_name pp, r_clan = Some ''onotka'',
         r_total_days_completed = 0\<rparr>])
   \<and> (\<forall>store k.
         k < 5 \<and> (\<forall>j<k. no_record (store j))
         \<and> store k = Inr (Some \<lparr>r_id = userId, r_name = pp_name pp, r_clan = Some ''onotka'',
                                  r_total_days_completed = 0\<rparr>)
         \<longrightarrow> (\<exists>u. user (fst (run_listener None store ''SIGNED_IN'' (Some userId) st)) = Some u
                  \<and> u_id u = userId \<and> u_name u = pp_name pp))"
proof -
  assume pp: "pendingProfile st = Some pp"
  let ?row = "\<lparr>r_id = userId, r_name = pp_name pp, r_clan = Some ''onotka'',
                r_total_days_completed = 0\<rparr>"
  have call: "onAuthStateChange ''SIGNED_IN'' (Some userId) st =
      (st, ListenerInsert userId, [ProfilesInsert ?row])"
    using pp by (simp add: onAuthStateChange_def)
  have run: "\<exists>u. user (fst (run_listener None store ''SIGNED_IN'' (Some userId) st)) = Some u
                  \<and> u_id u = userId \<and> u_name u = pp_name pp"
    if k5: "k < 5" and nr: "\<forall>j<k. no_record (store j)" and sk: "store k = Inr (Some ?row)"
    for store k
  proof -
    have le0: "(0::nat) \<le> k" by simp
    have all: "\<forall>j. 0 \<le> j \<and> j < k \<longrightarrow> no_record (store j)" using nr by simp
    obtain tr' where tr':
      "run_retry store (RetrySelect userId 5 0) (st\<lparr>pendingProfile := None\<rparr>)
         [ProfilesInsert ?row, ProfilesSelect userId] =
         (True, st\<lparr>pendingProfile := None\<rparr>\<lparr>user := Some (user_of_row ?row), isLoading := False\<rparr>, tr')"
      using run_retry_found [of 0 k 5 store ?row userId "st\<lparr>pendingProfile := None\<rparr>"
          "[ProfilesInsert ?row, ProfilesSelect userId]"] le0 k5 sk all
      by blast
    have "run_listener None store ''SIGNED_IN'' (Some userId) st =
        (st\<lparr>pendingProfile := None\<rparr>\<lparr>user := Some (user_of_row ?row), isLoading := False\<rparr>, tr')"
      using call tr'
      by (simp add: run_listener_def listener_on_insert_def listener_fetch_def
            fetchUserProfileWithRetry_def retry_loop_def finish_listener_def)
    then show ?thesis by (simp add: user_of_row_def)
  qed
  from call run show ?thesis by blast
qed

text \<open>
  C3 amended, at the staged name Alice, the identity \<open>u2\<close> and a table that has the
  row from the third lookup on.
\<close>

theorem created_profile_row_witness:
  "pendingProfile staged_alice = Some \<lparr>pp_name = ''Alice''\<rparr>
   \<and> snd (snd (onAuthStateChange ''SIGNED_IN'' (Some ''u2'') staged_alice))
       = [ProfilesInsert alice_u2_row]
   \<and> (2::nat) < 5 \<and> no_record (store_u2_third 0) \<and> no_record (store_u2_third 1)
   \<and> store_u2_third 2 = Inr (Some alice_u2_row)
   \<and> (\<exists>u. user (fst (run_listener None store_u2_third ''SIGNED_IN'' (Some ''u2'') staged_alice))
             = Some u \<and> u_id u = ''u2'' \<and> u_name u = ''Alice'')"
proof -
  have nr: "no_record (store_u2_third 0) \<and> no_record (store_u2_third 1)"
    by (simp add: store_u2_third_def)
  have h1: "pendingProfile staged_alice = Some \<lparr>pp_name = ''Alice''\<rparr>"
    by (simp add: staged_alice_def)
  have h2: "(2::nat) < 5 \<and> (\<forall>j<2. no_record (store_u2_third j))
     \<and> store_u2_third 2 = Inr (Some \<lparr>r_id = ''u2'', r_name = pp_name \<lparr>pp_name = ''Alice''\<rparr>,
            r_clan = Some ''onotka'', r_total_days_completed = 0\<rparr>)"
    by (simp add: store_u2_third_def alice_u2_row_def)
  note inst = created_profile_row [OF h1, of "''u2''"]
  have call: "snd (snd (onAuthStateChange ''SIGNED_IN'' (Some ''u2'') staged_alice))
       = [ProfilesInsert alice_u2_row]"
    using inst [THEN conjunct1] by (simp add: alice_u2_row_def)
  have run: "\<exists>u. user (fst (run_listener None store_u2_third ''SIGNED_IN'' (Some ''u2'')
                staged_alice)) = Some u \<and> u_id u = ''u2'' \<and> u_name u = ''Alice''"
    using inst [THEN conjunct2, THEN spec, of store_u2_third, THEN spec, of 2] h2 by simp
  from h1 h2 nr call run show ?thesis by (simp add: alice_u2_row_def)
qed

subsection \<open>C4: the retry loop issues at most five lookups\<close>

text \<open>
  Claim C4. \<open>fetchUserProfileWithRetry\<close>, called with its default budget of 5, issues at
  most 5 lookups. If the lookup of iteration \<open>k < 5\<close> (the fifth included) is the first
  to carry a row, the function returns \<open>true\<close> at once, having issued \<open>k + 1\<close> lookups
  and stored that row as the user: its id, its name, the empty email, its clan and its
  number of completed days. If none of the first 5 lookups
  carries a row, it returns \<open>false\<close> after exactly 5 lookups, leaving the user as it was.
  (The source returns a boolean and stores the row; "returns the record" and "returns
  NotFound" are read as \<open>true\<close> with the user set and \<open>false\<close>.)
\<close>

theorem fetchWithRetry_at_most_five_lookups:
  "lookups (snd (snd (run_fetchUserProfileWithRetry store userId 5 st))) \<le> 5
   \<and> (\<forall>k d. k < 5 \<and> store k = Inr (Some d) \<and> (\<forall>j<k. no_record (store j)) \<longrightarrow>
         fst (run_fetchUserProfileWithRetry store userId 5 st) = True
         \<and> fst (snd (run_fetchUserProfileWithRetry store userId 5 st))
             = st\<lparr>user := Some \<lparr>u_id = r_id d, u_name = r_name d, u_email = [],
                                  u_clan = r_clan d,
                                  u_totalDaysCompleted = r_total_days_completed d\<rparr>,
                  isLoading := False\<rparr>
         \<and> lookups (snd (snd (run_fetchUserProfileWithRetry store userId 5 st))) = Suc k)
   \<and> ((\<forall>j<5. no_record (store j)) \<longrightarrow>
         fst (run_fetchUserProfileWithRetry store userId 5 st) = False
         \<and> fst (snd (run_fetchUserProfileWithRetry store userId 5 st)) = st\<lparr>isLoading := False\<rparr>
         \<and> lookups (snd (snd (run_fetchUserProfileWithRetry store userId 5 st))) = 5)"
proof -
  have start: "run_fetchUserProfileWithRetry store userId 5 st =
      run_retry store (RetrySelect userId 5 0) st [ProfilesSelect userId]"
    by (simp add: run_fetch_start)
  have pos: "(0::nat) < 5" by simp
  have le0: "(0::nat) \<le> k" for k by simp
  have bound: "lookups (snd (snd (run_fetchUserProfileWithRetry store userId 5 st))) \<le> 5"
    using run_retry_lookups_le [of store userId 5 0 st "[ProfilesSelect userId]"] start
    by simp
  have found: "fst (run_fetchUserProfileWithRetry store userId 5 st) = True
         \<and> fst (snd (run_fetchUserProfileWithRetry store userId 5 st))
             = st\<lparr>user := Some \<lparr>u_id = r_id d, u_name = r_name d, u_email = [],
                                  u_clan = r_clan d,
                                  u_totalDaysCompleted = r_total_days_completed d\<rparr>,
                  isLoading := False\<rparr>
         \<and> lookups (snd (snd (run_fetchUserProfileWithRetry store userId 5 st))) = Suc k"
    if k5: "k < 5" and sk: "store k = Inr (Some d)" and nr: "\<forall>j<k. no_record (store j)" for k d
  proof -
    have "\<forall>j. 0 \<le> j \<and> j < k \<longrightarrow> no_record (store j)"
      using nr by simp
    then obtain tr' where
      "run_retry store (RetrySelect userId 5 0) st [ProfilesSelect userId] =
         (True, st\<lparr>user := Some (user_of_row d), isLoading := False\<rparr>, tr')"
      "lookups tr' = lookups [ProfilesSelect userId] + (k - 0)"
      using run_retry_found [of 0 k 5 store d userId st "[ProfilesSelect userId]"] k5 sk le0
      by blast
    then show ?thesis using start by (simp add: user_of_row_def)
  qed
  have not_found: "fst (run_fetchUserProfileWithRetry store userId 5 st) = False
         \<and> fst (snd (run_fetchUserProfileWithRetry store userId 5 st)) = st\<lparr>isLoading := False\<rparr>
         \<and> lookups (snd (snd (run_fetchUserProfileWithRetry store userId 5 st))) = 5"
    if nr5: "\<forall>j<5. no_record (store j)"
  proof -
    have "\<forall>j. 0 \<le> j \<and> j < 5 \<longrightarrow> no_record (store j)"
      using nr5 by simp
    then obtain tr' where
      "run_retry store (RetrySelect userId 5 0) st [ProfilesSelect userId] =
         (False, st\<lparr>isLoading := False\<rparr>, tr')"
      "lookups tr' = lookups [ProfilesSelect userId] + (5 - Suc 0)"
      using run_retry_not_found [of 0 5 store userId st "[ProfilesSelect userId]"] pos
      by blast
    then show ?thesis using start by simp
  qed
  from bound found not_found show ?thesis by blast
qed

text \<open>
  C4 at concrete tables: a row at the fifth lookup only, and no row at all.
\<close>

theorem fetchWithRetry_at_most_five_lookups_witness:
  "(4::nat) < 5
   \<and> store_fifth 4 = Inr (Some \<lparr>r_id = ''u1'', r_name = ''Alice'', r_clan = Some ''onotka'',
                                     r_total_days_completed = 0\<rparr>)
   \<and> no_record (store_fifth 0) \<and> no_record (store_fifth 1)
   \<and> no_record (store_fifth 2) \<and> no_record (store_fifth 3)
   \<and> fst (run_fetchUserProfileWithRetry store_fifth ''u1'' 5 initial_state) = True
   \<and> user (fst (snd (run_fetchUserProfileWithRetry store_fifth ''u1'' 5 initial_state)))
       = Some \<lparr>u_id = ''u1'', u_name = ''Alice'', u_email = [], u_clan = Some ''onotka'',
               u_totalDaysCompleted = 0\<rparr>
   \<and> lookups (snd (snd (run_fetchUserProfileWithRetry store_fifth ''u1'' 5 initial_state))) = 5
   \<and> no_record (store_never 0) \<and> no_record (store_never 1) \<and> no_record (store_never 2)
   \<and> no_record (store_never 3) \<and> no_record (store_never 4)
   \<and> fst (run_fetchUserProfileWithRetry store_never ''u1'' 5 initial_state) = False
   \<and> lookups (snd (snd (run_fetchUserProfileWithRetry store_never ''u1'' 5 initial_state))) = 5"
proof -
  have h1: "(4::nat) < 5 \<and> store_fifth 4 = Inr (Some alice_row)
      \<and> (\<forall>j<4. no_record (store_fifth j))"
    by (simp add: store_fifth_def)
  have h2: "\<forall>j<5. no_record (store_never j)"
    by (simp add: store_never_def)
  from h1 fetchWithRetry_at_most_five_lookups [of store_fifth "''u1''" initial_state]
  have c1: "fst (run_fetchUserProfileWithRetry store_fifth ''u1'' 5 initial_state) = True
     \<and> fst (snd (run_fetchUserProfileWithRetry store_fifth ''u1'' 5 initial_state))
         = initial_state\<lparr>user := Some \<lparr>u_id = r_id alice_row, u_name = r_name alice_row,
               u_email = [], u_clan = r_clan alice_row,
               u_totalDaysCompleted = r_total_days_completed alice_row\<rparr>, isLoading := False\<rparr>
     \<and> lookups (snd (snd (run_fetchUserProfileWithRetry store_fifth ''u1'' 5 initial_state)))
         = Suc 4"
    by blast
  from h2 fetchWithRetry_at_most_five_lookups [of store_never "''u1''" initial_state]
  have c2: "fst (run_fetchUserProfileWithRetry store_never ''u1'' 5 initial_state) = False
     \<and> lookups (snd (snd (run_fetchUserProfileWithRetry store_never ''u1'' 5 initial_state))) = 5"
    by blast
  have nr: "no_record (store_fifth 0) \<and> no_record (store_fifth 1)
      \<and> no_record (store_fifth 2) \<and> no_record (store_fifth 3)
      \<and> no_record (store_never 0) \<and> no_record (store_never 1) \<and> no_record (store_never 2)
      \<and> no_record (store_never 3) \<and> no_record (store_never 4)"
    by (simp add: store_fifth_def store_never_def)
  have row: "store_fifth 4 = Inr (Some \<lparr>r_id = ''u1'', r_name = ''Alice'',
      r_clan = Some ''onotka'', r_total_days_completed = 0\<rparr>)"
    by (simp add: store_fifth_def alice_row_def)
  from row nr c1 c2 show ?thesis by (simp add: alice_row_def)
qed

subsection \<open>C5: the session query on mount\<close>

text \<open>
  Claim C5 as stated fails in its second half. With a session for \<open>u1\<close> and a table
  that has the row only from the second lookup on, the boot sequence ends with no user,
  where \<open>fetchUserProfileWithRetry\<close> ends with the user set: the boot sequence calls
  \<open>fetchUserProfile\<close>, which looks up once.
\<close>

theorem boot_single_lookup_counterexample:
  "\<not> (user (fst (run_boot (Some ''u1'') store_second))
        = user (fst (snd (run_fetchUserProfileWithRetry store_second ''u1'' 5 initial_state))))"
  by (simp add: run_boot_def boot_def boot_on_session_def fetchUserProfile_def
        fetchUserProfile_on_select_def store_second_def run_fetchUserProfileWithRetry_def
        fetchUserProfileWithRetry_def retry_loop_def run_retry.simps retry_on_select_def
        retry_on_delay_def initial_state_def)

text \<open>
  Claim C5, amended. On mount, if there is no session the state becomes: no user,
  \<open>isLoading\<close> false, and no lookup is issued. If there is a session for \<open>userId\<close>, the
  boot sequence calls \<open>fetchUserProfile(userId)\<close>, which issues exactly one lookup: a row
  is projected to the user, no row or an error leaves the user absent, and
  \<open>isLoading\<close> is false in every case.
\<close>

theorem boot_settles_with_one_lookup:
  "fst (run_boot None store) = \<lparr>user = None, isLoading = False, pendingProfile = None\<rparr>
   \<and> lookups (snd (run_boot None store)) = 0
   \<and> boot_on_session (Some userId) st = fetchUserProfile userId st
   \<and> user (fst (run_boot (Some userId) store))
       = (case store 0 of Inr (Some d) \<Rightarrow> Some (user_of_row d) | Inr None \<Rightarrow> None | Inl e \<Rightarrow> None)
   \<and> isLoading (fst (run_boot (Some userId) store)) = False
   \<and> lookups (snd (run_boot (Some userId) store)) = 1"
  by (simp add: run_boot_def boot_def boot_on_session_def fetchUserProfile_def
        fetchUserProfile_on_select_def initial_state_def lookups_def
        split: sum.splits option.splits)

subsection \<open>C6: the staged registration and the insert\<close>

text \<open>
  Claim C6 as stated fails in "the error is surfaced", which the specification defines
  as a failure flag with a message recorded in the session state. The component has no
  such cell: the listener writes the error to the console and sets \<open>isLoading\<close> to
  false. The state after a failed insert is the state after a plain signed-out
  notification, and it is the same whatever the error was.
\<close>

theorem insert_error_not_in_state_counterexample:
  "fst (run_listener (Some ''duplicate key'') store_u2_third ''SIGNED_IN'' (Some ''u2'')
          staged_alice)
     = fst (run_listener None store_u2_third ''SIGNED_OUT'' None staged_alice)
   \<and> fst (run_listener (Some ''duplicate key'') store_u2_third ''SIGNED_IN'' (Some ''u2'')
            staged_alice)
     = fst (run_listener (Some ''network down'') store_u2_third ''SIGNED_IN'' (Some ''u2'')
              staged_alice)"
  by (simp add: run_listener_def onAuthStateChange_def listener_on_insert_def
        finish_listener_def staged_alice_def)

text \<open>
  Claim C6, amended. With a registration staged, the segment that receives the answer of
  the insert clears the stage if and only if the insert succeeded. On success it goes on
  to \<open>fetchUserProfileWithRetry\<close> (the first lookup is issued), and the stage is still
  clear when the notification is fully handled. On failure the stage is kept, the error
  is written to the console and to nothing else (the state changes in \<open>isLoading\<close>
  alone, which becomes false), the user is as it was and no lookup is issued.
\<close>

theorem pending_cleared_iff_insert_succeeds:
  "pendingProfile st = Some pp \<Longrightarrow>
   (pendingProfile (fst (listener_on_insert userId profileError st)) = None
      \<longleftrightarrow> profileError = None)
   \<and> listener_on_insert userId None st =
       (st\<lparr>pendingProfile := None\<rparr>, ListenerRetry (RetrySelect userId 5 0),
        [ProfilesSelect userId])
   \<and> listener_on_insert userId (Some e) st =
       (st\<lparr>isLoading := False\<rparr>, ListenerDone, [ConsoleError ''Error creating profile:'' e])
   \<and> pendingProfile (fst (run_listener None store ''SIGNED_IN'' (Some userId) st)) = None
   \<and> pendingProfile (fst (run_listener (Some e) store ''SIGNED_IN'' (Some userId) st)) = Some pp
   \<and> user (fst (run_listener (Some e) store ''SIGNED_IN'' (Some userId) st)) = user st
   \<and> isLoading (fst (run_listener (Some e) store ''SIGNED_IN'' (Some userId) st)) = False
   \<and> lookups (snd (run_listener (Some e) store ''SIGNED_IN'' (Some userId) st)) = 0
   \<and> fst (run_listener (Some e) store ''SIGNED_IN'' (Some userId) st) = st\<lparr>isLoading := False\<rparr>
   \<and> snd (run_listener (Some e) store ''SIGNED_IN'' (Some userId) st)
       = [ProfilesInsert \<lparr>r_id = userId, r_name = pp_name pp, r_clan = Some ''onotka'',
            r_total_days_completed = 0\<rparr>,
          ConsoleError ''Error creating profile:'' e]"
proof -
  assume pp: "pendingProfile st = Some pp"
  have ok: "listener_on_insert userId None st =
       (st\<lparr>pendingProfile := None\<rparr>, ListenerRetry (RetrySelect userId 5 0),
        [ProfilesSelect userId])"
    by (simp add: listener_on_insert_def listener_fetch_def fetchUserProfileWithRetry_def
          retry_loop_def)
  have failed: "listener_on_insert userId (Some e') st =
       (st\<lparr>isLoading := False\<rparr>, ListenerDone, [ConsoleError ''Error creating profile:'' e'])"
    for e'
    by (simp add: listener_on_insert_def)
  have iff: "pendingProfile (fst (listener_on_insert userId profileError st)) = None
      \<longleftrightarrow> profileError = None"
    using pp ok failed by (cases profileError) simp_all
  have call: "onAuthStateChange ''SIGNED_IN'' (Some userId) st =
      (st, ListenerInsert userId,
       [ProfilesInsert \<lparr>r_id = userId, r_name = pp_name pp, r_clan = Some ''onotka'',
          r_total_days_completed = 0\<rparr>])"
    using pp by (simp add: onAuthStateChange_def)
  have run_ok: "pendingProfile (fst (run_listener None store ''SIGNED_IN'' (Some userId) st)) = None"
    using call ok
      run_retry_select_pendingProfile [of store userId 5 0 "st\<lparr>pendingProfile := None\<rparr>"]
    by (simp add: run_listener_def finish_listener_retry_state)
  have run_failed: "run_listener (Some e) store ''SIGNED_IN'' (Some userId) st =
      (st\<lparr>isLoading := False\<rparr>,
       [ProfilesInsert \<lparr>r_id = userId, r_name = pp_name pp, r_clan = Some ''onotka'',
          r_total_days_completed = 0\<rparr>, ConsoleError ''Error creating profile:'' e])"
    using call failed [of e] by (simp add: run_listener_def finish_listener_def)
  have after_failed:
    "pendingProfile (fst (run_listener (Some e) store ''SIGNED_IN'' (Some userId) st)) = Some pp
     \<and> user (fst (run_listener (Some e) store ''SIGNED_IN'' (Some userId) st)) = user st
     \<and> isLoading (fst (run_listener (Some e) store ''SIGNED_IN'' (Some userId) st)) = False
     \<and> lookups (snd (run_listener (Some e) store ''SIGNED_IN'' (Some userId) st)) = 0"
    using run_failed pp by (simp add: lookups_def)
  from iff ok failed [of e] run_ok after_failed run_failed show ?thesis by simp
qed

text \<open>
  C6 at the staged name Alice and the identity \<open>u2\<close>.
\<close>

theorem pending_cleared_iff_insert_succeeds_witness:
  "pendingProfile staged_alice = Some \<lparr>pp_name = ''Alice''\<rparr>
   \<and> pendingProfile (fst (listener_on_insert ''u2'' None staged_alice)) = None
   \<and> pendingProfile (fst (run_listener None store_u2_third ''SIGNED_IN'' (Some ''u2'')
                             staged_alice)) = None
   \<and> pendingProfile (fst (run_listener (Some ''duplicate key'') store_u2_third ''SIGNED_IN''
                             (Some ''u2'') staged_alice)) = Some \<lparr>pp_name = ''Alice''\<rparr>
   \<and> user (fst (run_listener (Some ''duplicate key'') store_u2_third ''SIGNED_IN''
                   (Some ''u2'') staged_alice)) = None
   \<and> fst (run_listener (Some ''duplicate key'') store_u2_third ''SIGNED_IN''
             (Some ''u2'') staged_alice) = staged_alice\<lparr>isLoading := False\<rparr>
   \<and> snd (run_listener (Some ''duplicate key'') store_u2_third ''SIGNED_IN''
             (Some ''u2'') staged_alice)
       = [ProfilesInsert alice_u2_row, ConsoleError ''Error creating profile:'' ''duplicate key'']"
proof -
  have h: "pendingProfile staged_alice = Some \<lparr>pp_name = ''Alice''\<rparr>"
    by (simp add: staged_alice_def)
  have u: "user staged_alice = None"
    by (simp add: staged_alice_def)
  from pending_cleared_iff_insert_succeeds
    [OF h, of "''u2''" None "''duplicate key''" store_u2_third] h u
  show ?thesis by (simp add: alice_u2_row_def)
qed

subsection \<open>C7: the clan is merged only after the write is confirmed\<close>

text \<open>
  Claim C7. For a user with a non-empty id and a non-empty clan in \<open>data\<close>, the call
  segment of \<open>setCurrentOnboardingData\<close> issues the update and leaves the state as it
  was. If the update fails, the state is left as it was (the error is logged). If it
  succeeds, the user becomes \<open>{...prev, ...data}\<close>, whose clan is the new one, and no
  lookup is issued; when \<open>data\<close> holds the clan only, this is the previous user with
  the clan replaced.
\<close>

theorem onboarding_update_only_after_confirmed_write:
  "user st = Some u \<Longrightarrow> u_id u \<noteq> [] \<Longrightarrow> p_clan d = Some c \<Longrightarrow> c \<noteq> [] \<Longrightarrow>
   setCurrentOnboardingData d st = (st, True, [ProfilesUpdateClan c (u_id u)])
   \<and> setCurrentOnboardingData_on_response d (Some e) st
       = (st, [ConsoleError ''Error updating user data:'' e])
   \<and> fst (setCurrentOnboardingData_on_response d None st) = st\<lparr>user := Some (spread u d)\<rparr>
   \<and> snd (setCurrentOnboardingData_on_response d None st) = []
   \<and> u_clan (spread u d) = Some c
   \<and> (p_id d = None \<and> p_name d = None \<and> p_email d = None \<and> p_totalDaysCompleted d = None
        \<longrightarrow> spread u d = u\<lparr>u_clan := Some c\<rparr>)"
  by (simp add: setCurrentOnboardingData_def setCurrentOnboardingData_on_response_def spread_def)

text \<open>
  C7 at the settled user Alice and \<open>data = {clan: "c1"}\<close>.
\<close>

theorem onboarding_update_only_after_confirmed_write_witness:
  "user settled_alice = Some (user_of_row alice_row) \<and> u_id (user_of_row alice_row) \<noteq> []
   \<and> p_clan clan_c1 = Some ''c1'' \<and> ''c1'' \<noteq> []
   \<and> p_id clan_c1 = None \<and> p_name clan_c1 = None \<and> p_email clan_c1 = None
   \<and> p_totalDaysCompleted clan_c1 = None
   \<and> fst (setCurrentOnboardingData clan_c1 settled_alice) = settled_alice
   \<and> fst (setCurrentOnboardingData_on_response clan_c1 (Some ''network'') settled_alice)
       = settled_alice
   \<and> user (fst (setCurrentOnboardingData_on_response clan_c1 None settled_alice))
       = Some ((user_of_row alice_row)\<lparr>u_clan := Some ''c1''\<rparr>)"
proof -
  have h1: "user settled_alice = Some (user_of_row alice_row)"
    by (simp add: settled_alice_def)
  have h2: "u_id (user_of_row alice_row) \<noteq> []"
    by (simp add: user_of_row_def alice_row_def)
  have h3: "p_clan clan_c1 = Some ''c1''"
    by (simp add: clan_c1_def)
  have h4: "''c1'' \<noteq> []"
    by simp
  have h5: "p_id clan_c1 = None \<and> p_name clan_c1 = None \<and> p_email clan_c1 = None
     \<and> p_totalDaysCompleted clan_c1 = None"
    by (simp add: clan_c1_def)
  from onboarding_update_only_after_confirmed_write [OF h1 h2 h3 h4, of "''network''"] h5
  have "fst (setCurrentOnboardingData clan_c1 settled_alice) = settled_alice
     \<and> fst (setCurrentOnboardingData_on_response clan_c1 (Some ''network'') settled_alice)
         = settled_alice
     \<and> user (fst (setCurrentOnboardingData_on_response clan_c1 None settled_alice))
         = Some ((user_of_row alice_row)\<lparr>u_clan := Some ''c1''\<rparr>)"
    by simp
  with h1 h2 h3 h4 h5 show ?thesis by simp
qed

subsection \<open>C8: a failed lookup is retried like a missing row\<close>

text \<open>
  Claim C8. The segment that receives the answer of a lookup treats an error like "no
  row found": the same state, the same suspension on the delay of the same iteration,
  and the same \<open>delay(500)\<close>; the only difference is the line written to the console.
  Hence a whole call returns the same value, ends in the same state and issues the same
  lookups and delays when every error is replaced by "no row found". A table that fails
  every lookup uses up the budget: \<open>false\<close> after exactly 5 lookups.
\<close>

theorem lookup_error_treated_as_not_found:
  "fst (retry_on_select userId retries i (Inl e) st)
     = fst (retry_on_select userId retries i (Inr None) st)
   \<and> fst (snd (retry_on_select userId retries i (Inl e) st)) = RetryDelay userId retries i
   \<and> fst (snd (retry_on_select userId retries i (Inr None) st)) = RetryDelay userId retries i
   \<and> without_console (snd (snd (retry_on_select userId retries i (Inl e) st))) = [Delay 500]
   \<and> snd (snd (retry_on_select userId retries i (Inr None) st)) = [Delay 500]
   \<and> fst (run_fetchUserProfileWithRetry store userId retries st)
       = fst (run_fetchUserProfileWithRetry (errors_as_not_found store) userId retries st)
   \<and> fst (snd (run_fetchUserProfileWithRetry store userId retries st))
       = fst (snd (run_fetchUserProfileWithRetry (errors_as_not_found store) userId retries st))
   \<and> without_console (snd (snd (run_fetchUserProfileWithRetry store userId retries st)))
       = without_console
           (snd (snd (run_fetchUserProfileWithRetry (errors_as_not_found store) userId retries st)))
   \<and> fst (run_fetchUserProfileWithRetry (\<lambda>j. Inl e) userId 5 st) = False
   \<and> lookups (snd (snd (run_fetchUserProfileWithRetry (\<lambda>j. Inl e) userId 5 st))) = 5"
proof -
  have step: "fst (retry_on_select userId retries i (Inl e) st)
       = fst (retry_on_select userId retries i (Inr None) st)
     \<and> fst (snd (retry_on_select userId retries i (Inl e) st)) = RetryDelay userId retries i
     \<and> fst (snd (retry_on_select userId retries i (Inr None) st)) = RetryDelay userId retries i
     \<and> without_console (snd (snd (retry_on_select userId retries i (Inl e) st))) = [Delay 500]
     \<and> snd (snd (retry_on_select userId retries i (Inr None) st)) = [Delay 500]"
    by (simp add: retry_on_select_def)
  have pos: "(0::nat) < 5" by simp
  have all: "\<forall>j. 0 \<le> j \<and> j < 5 \<longrightarrow> no_record ((\<lambda>j. Inl e) j)" by simp
  obtain tr' where
    "run_retry (\<lambda>j. Inl e) (RetrySelect userId 5 0) st [ProfilesSelect userId] =
       (False, st\<lparr>isLoading := False\<rparr>, tr')"
    "lookups tr' = lookups [ProfilesSelect userId] + (5 - Suc 0)"
    using run_retry_not_found [of 0 5 "\<lambda>j. Inl e" userId st "[ProfilesSelect userId]"] pos all
    by blast
  then have budget: "fst (run_fetchUserProfileWithRetry (\<lambda>j. Inl e) userId 5 st) = False
     \<and> lookups (snd (snd (run_fetchUserProfileWithRetry (\<lambda>j. Inl e) userId 5 st))) = 5"
    using run_fetch_start [OF pos, of "\<lambda>j. Inl e" userId st] by simp
  from step run_fetch_error_as_not_found [of store userId retries st] budget
  show ?thesis by simp
qed

subsection \<open>C9: \<open>signIn\<close>\<close>

text \<open>
  Claim C9. \<open>signIn\<close> sets \<open>isLoading\<close> and then calls the identity service, without
  touching the user. When the service rejects the credential, \<open>isLoading\<close> is set back
  to false, the promise is rejected with the error, and the user is as it was. Whatever
  the answer, \<open>signIn\<close> does not change the user; on success its promise is fulfilled.
\<close>

theorem signIn_settling_and_rejection:
  "isLoading (fst (signIn email password st)) = True
   \<and> user (fst (signIn email password st)) = user st
   \<and> snd (signIn email password st) = [AuthSignInWithPassword email password]
   \<and> isLoading (fst (signIn_on_response (Some e) st')) = False
   \<and> fst (snd (signIn_on_response (Some e) st')) = Inl e
   \<and> user (fst (signIn_on_response error st')) = user st'
   \<and> fst (snd (signIn_on_response None st')) = Inr ()
   \<and> isLoading (fst (run_signIn (Some e) email password st)) = False
   \<and> fst (snd (run_signIn (Some e) email password st)) = Inl e
   \<and> user (fst (run_signIn error email password st)) = user st
   \<and> snd (snd (run_signIn (Some e) email password st))
       = [AuthSignInWithPassword email password, ConsoleError ''Sign in error:'' e]"
  by (cases error) (simp_all add: signIn_def signIn_on_response_def run_signIn_def)

subsection \<open>C10: \<open>isLoading\<close> after a failed \<open>signUp\<close>\<close>

text \<open>
  Claim C10 as stated fails. \<open>signUp\<close> is called from the initial state, the identity
  service answers "User already registered", and the session query of the effect that ran
  again (because \<open>signUp\<close> staged the registration) is answered with no session:
  \<open>isLoading\<close> is false. The state does not stay settling.
\<close>

theorem signUp_failure_not_settling_counterexample:
  "\<not> isLoading (run_state (run_signUp
        [SignUpAnswered (Inl ''User already registered''), SessionAnswered None]
        ''Alice'' ''alice@example.org'' ''secret'' initial_state))"
  by (simp add: run_signUp_def signUp_start_def signUp_def boot_def on_answer_def
        signUp_on_response_def boot_on_session_def initial_state_def)

text \<open>
  Claim C10, amended. \<open>signUp\<close> sets \<open>isLoading\<close> before the call and no path of
  \<open>signUp\<close> resets it: the segment that receives the answer changes nothing in the
  state, so when the call fails (with an error, among them "User already registered", or
  with no user returned) the promise is rejected, the stage is kept and \<open>isLoading\<close> is
  still true at that moment if the effect has not been answered. But staging the
  registration runs the effect again, and along every run \<open>isLoading\<close> is true exactly
  until that effect has finished (its session query answered with no session, or its
  single lookup answered). With no session the run ends, in either order of the two
  answers, in the state of the call with \<open>isLoading\<close> false and the registration staged:
  the user is as it was.
\<close>

theorem signUp_failure_settling_until_effect:
  "isLoading (fst (signUp nm email password st)) = True
   \<and> fst (signUp_on_response resp st') = st'
   \<and> run_result (run_signUp [SignUpAnswered (Inl e)] nm email password st) = Some (Inl e)
   \<and> run_result (run_signUp [SignUpAnswered (Inr None)] nm email password st)
       = Some (Inl ''No user returned after signup'')
   \<and> isLoading (run_state (run_signUp [SignUpAnswered (Inl e)] nm email password st)) = True
   \<and> isLoading (run_state (run_signUp answers nm email password st))
       = (run_effect (run_signUp answers nm email password st) \<noteq> EffectFetch FetchDone)
   \<and> pendingProfile (run_state (run_signUp answers nm email password st))
       = Some \<lparr>pp_name = nm\<rparr>
   \<and> run_state (run_signUp [SignUpAnswered (Inl e), SessionAnswered None] nm email password st)
       = st\<lparr>isLoading := False, pendingProfile := Some \<lparr>pp_name = nm\<rparr>\<rparr>
   \<and> run_state (run_signUp [SessionAnswered None, SignUpAnswered (Inl e)] nm email password st)
       = st\<lparr>isLoading := False, pendingProfile := Some \<lparr>pp_name = nm\<rparr>\<rparr>
   \<and> run_result (run_signUp [SignUpAnswered (Inl e), SessionAnswered None] nm email password st)
       = Some (Inl e)
   \<and> run_result (run_signUp [SessionAnswered None, SignUpAnswered (Inl e)] nm email password st)
       = Some (Inl e)
   \<and> isLoading (run_state (run_signUp
         [SignUpAnswered (Inl e), SessionAnswered (Some userId), SelectAnswered sel]
         nm email password st)) = False
   \<and> run_trace (run_signUp [SignUpAnswered (Inl e)] nm email password st)
       = [AuthSignUp email password, AuthGetSession, ConsoleError ''Sign up error:'' e]"
proof -
  have call: "isLoading (fst (signUp nm email password st)) = True"
    by (simp add: signUp_def)
  have inv: "isLoading (run_state (run_signUp answers nm email password st))
       = (run_effect (run_signUp answers nm email password st) \<noteq> EffectFetch FetchDone)
     \<and> pendingProfile (run_state (run_signUp answers nm email password st))
       = Some \<lparr>pp_name = nm\<rparr>"
    using signUp_inv_run [of nm answers email password st] by (simp add: signUp_inv_def)
  have failed: "run_result (run_signUp [SignUpAnswered (Inl e)] nm email password st) = Some (Inl e)
     \<and> run_result (run_signUp [SignUpAnswered (Inr None)] nm email password st)
         = Some (Inl ''No user returned after signup'')
     \<and> isLoading (run_state (run_signUp [SignUpAnswered (Inl e)] nm email password st)) = True
     \<and> run_trace (run_signUp [SignUpAnswered (Inl e)] nm email password st)
         = [AuthSignUp email password, AuthGetSession, ConsoleError ''Sign up error:'' e]"
    by (simp add: run_signUp_def signUp_start_def signUp_def boot_def on_answer_def
          signUp_on_response_def)
  have no_session:
    "run_state (run_signUp [SignUpAnswered (Inl e), SessionAnswered None] nm email password st)
       = st\<lparr>isLoading := False, pendingProfile := Some \<lparr>pp_name = nm\<rparr>\<rparr>
     \<and> run_state (run_signUp [SessionAnswered None, SignUpAnswered (Inl e)] nm email password st)
       = st\<lparr>isLoading := False, pendingProfile := Some \<lparr>pp_name = nm\<rparr>\<rparr>
     \<and> run_result (run_signUp [SignUpAnswered (Inl e), SessionAnswered None] nm email password st)
       = Some (Inl e)
     \<and> run_result (run_signUp [SessionAnswered None, SignUpAnswered (Inl e)] nm email password st)
       = Some (Inl e)"
    by (simp add: run_signUp_def signUp_start_def signUp_def boot_def on_answer_def
          signUp_on_response_def boot_on_session_def)
  have session: "isLoading (run_state (run_signUp
         [SignUpAnswered (Inl e), SessionAnswered (Some userId), SelectAnswered sel]
         nm email password st)) = False"
    by (simp add: run_signUp_def signUp_start_def signUp_def boot_def on_answer_def
          signUp_on_response_def boot_on_session_def fetchUserProfile_def
          fetchUserProfile_on_select_def split: sum.splits option.splits)
  from call signUp_on_response_state [of resp st'] inv failed no_session session
  show ?thesis by simp
qed

end
